theory Spec2Isabelle
  imports Complex_Main "HOL-Library.Word" "HOL-Library.Multiset"
begin

section \<open>JavaScript values used by the application\<close>

text \<open>
  A JavaScript string is a sequence of UTF-16 code units. String constants of the source
  that are only ever produced (colours, class names, alert messages, the MIME type) stay
  Isabelle strings; strings that are inputs (the narrative, a severity score, a transcript
  fragment, a response text) are \<open>js_string\<close>. \<open>js\<close> embeds an ASCII literal.
\<close>

type_synonym js_string = "16 word list"

definition js :: "string \<Rightarrow> js_string" where
  "js s = map (\<lambda>c. of_nat (of_char c)) s"

text \<open>
  \<open>String.prototype.trim\<close> removes leading and trailing code units that are
  ECMAScript WhiteSpace or LineTerminator: TAB, LF, VT, FF, CR, SP, NBSP, U+1680,
  U+2000..U+200A, U+2028, U+2029, U+202F, U+205F, U+3000 and U+FEFF.
\<close>

definition is_white_space :: "16 word \<Rightarrow> bool" where
  "is_white_space c \<longleftrightarrow>
     c = 0x9 \<or> c = 0xA \<or> c = 0xB \<or> c = 0xC \<or> c = 0xD \<or> c = 0x20 \<or> c = 0xA0 \<or>
     c = 0x1680 \<or> (0x2000 \<le> c \<and> c \<le> 0x200A) \<or> c = 0x2028 \<or> c = 0x2029 \<or>
     c = 0x202F \<or> c = 0x205F \<or> c = 0x3000 \<or> c = 0xFEFF"

definition trim :: "js_string \<Rightarrow> js_string" where
  "trim s = rev (dropWhile is_white_space (rev (dropWhile is_white_space s)))"

text \<open>
  String concatenation with a value that may be \<open>undefined\<close>: \<open>s + undefined\<close> appends
  the text \<open>undefined\<close>.
\<close>

definition to_js_string :: "js_string option \<Rightarrow> js_string" where
  "to_js_string v = (case v of None \<Rightarrow> js ''undefined'' | Some t \<Rightarrow> t)"

text \<open>
  Numbers. A finite JavaScript number is the real it denotes. \<open>Math.round\<close> is exact: the
  nearest integer, a tie going up. The product of two numbers is rounded to binary64; that
  multiplication is a parameter \<open>fmul\<close> of the chart transform, and \<open>binary64_product\<close> is
  the error bound that round-to-nearest gives (relative error \<open>2^-53\<close>, or half the
  smallest subnormal), which the exact product satisfies as well. A decimal literal stands
  for the nearest binary64 value, again within relative error \<open>2^-53\<close>.
\<close>

definition js_round :: "real \<Rightarrow> int" where
  "js_round x = \<lfloor>x + 1 / 2\<rfloor>"

definition binary64_product :: "(real \<Rightarrow> real \<Rightarrow> real) \<Rightarrow> bool" where
  "binary64_product fmul \<longleftrightarrow>
     (\<forall>x y. \<bar>x * y\<bar> \<le> 2 ^ 1023 \<longrightarrow> \<bar>fmul x y - x * y\<bar> \<le> \<bar>x * y\<bar> / 2 ^ 53 + 1 / 2 ^ 1075)"

definition literal :: "real \<Rightarrow> real \<Rightarrow> bool" where
  "literal q d \<longleftrightarrow> \<bar>d - q\<bar> \<le> \<bar>q\<bar> / 2 ^ 53"

section \<open>types.ts\<close>

record predicted_injury =
  bodyRegion :: js_string
  injuryName :: js_string
  probability :: real
  physicsExplanation :: js_string
  anatomyVulnerability :: js_string

section \<open>components/InjuryChart.tsx\<close>

record chart_entry =
  name :: js_string
  prob :: int

text \<open>
  \<open>Array.prototype.sort\<close> with a comparator is stable: an element moves behind exactly
  those it compares greater than. Insertion from the right end gives that order.
\<close>

fun insert_by :: "('a \<Rightarrow> 'a \<Rightarrow> int) \<Rightarrow> 'a \<Rightarrow> 'a list \<Rightarrow> 'a list" where
  "insert_by cmp x [] = [x]"
| "insert_by cmp x (y # ys) =
     (if cmp x y \<le> 0 then x # y # ys else y # insert_by cmp x ys)"

definition array_sort :: "('a \<Rightarrow> 'a \<Rightarrow> int) \<Rightarrow> 'a list \<Rightarrow> 'a list" where
  "array_sort cmp xs = foldr (insert_by cmp) xs []"

definition percent :: "(real \<Rightarrow> real \<Rightarrow> real) \<Rightarrow> real \<Rightarrow> int" where
  "percent fmul p = js_round (fmul p 100)"

definition chart_point :: "(real \<Rightarrow> real \<Rightarrow> real) \<Rightarrow> predicted_injury \<Rightarrow> chart_entry" where
  "chart_point fmul i = \<lparr>name = bodyRegion i, prob = percent fmul (probability i)\<rparr>"

definition chart_data :: "(real \<Rightarrow> real \<Rightarrow> real) \<Rightarrow> predicted_injury list \<Rightarrow> chart_entry list" where
  "chart_data fmul injuries =
     array_sort (\<lambda>a b. prob b - prob a) (map (chart_point fmul) injuries)"

definition getBarColor :: "int \<Rightarrow> string" where
  "getBarColor p =
     (if p > 75 then ''#ef4444''
      else if p > 40 then ''#f59e0b''
      else ''#10b981'')"

text \<open>The fill of every bar, in rendered order.\<close>

definition bar_fills :: "(real \<Rightarrow> real \<Rightarrow> real) \<Rightarrow> predicted_injury list \<Rightarrow> string list" where
  "bar_fills fmul injuries = map (\<lambda>entry. getBarColor (prob entry)) (chart_data fmul injuries)"

section \<open>App.tsx: severity badge\<close>

definition getSeverityColor :: "js_string \<Rightarrow> string" where
  "getSeverityColor score =
     (if score = js ''Critical'' then ''text-red-600 bg-red-100 border-red-200''
      else if score = js ''High'' then ''text-orange-600 bg-orange-100 border-orange-200''
      else if score = js ''Moderate'' then ''text-yellow-600 bg-yellow-100 border-yellow-200''
      else ''text-green-600 bg-green-100 border-green-200'')"

section \<open>services/geminiService.ts\<close>

text \<open>
  What a handler does to the world outside the component: calls on the browser's media
  objects, on the live session, dialogs, the console, and the one analysis request (named
  by the narrative its prompt embeds). A call that throws is not recorded: it had no effect.
\<close>

datatype effect =
    TrackStop nat
  | ContextClose nat
  | SessionClose nat
  | Alert string
  | ConsoleError string
  | Request js_string

text \<open>
  \<open>ai.models.generateContent\<close> either rejects or resolves with a response whose
  \<open>text\<close> may be \<open>undefined\<close>. \<open>JSON.parse\<close> is a parameter: \<open>None\<close> when it
  throws a SyntaxError, otherwise the parsed value.
\<close>

datatype api_reply = Rejected | Response "js_string option"

datatype analysis_error = RequestFailed | InvalidAnalysisData

text \<open>\<open>response.text || "{}"\<close>: an absent or empty text is replaced.\<close>

definition response_json :: "js_string option \<Rightarrow> js_string" where
  "response_json t = (case t of None \<Rightarrow> js ''{}'' | Some x \<Rightarrow> if x = [] then js ''{}'' else x)"

definition analyzeTraumaData ::
  "(js_string \<Rightarrow> 'v option) \<Rightarrow> (js_string \<Rightarrow> api_reply) \<Rightarrow> js_string
     \<Rightarrow> effect list \<times> (analysis_error + 'v)" where
  "analyzeTraumaData parse generateContent description =
     (case generateContent description of
        Rejected \<Rightarrow> ([Request description], Inl RequestFailed)
      | Response t \<Rightarrow>
          (case parse (response_json t) of
             Some v \<Rightarrow> ([Request description], Inr v)
           | None \<Rightarrow>
               ([Request description, ConsoleError ''Failed to parse Gemini response''],
                Inl InvalidAnalysisData)))"

section \<open>App.tsx: audio frames\<close>

text \<open>
  An element of a Float32Array is a finite number, NaN or an infinity. Scaling a
  single-precision value by \<open>32768\<close> is exact in binary64. Storing into an Int16Array
  applies ToInt16: NaN and the infinities become 0, a finite number is truncated towards
  zero and reduced modulo \<open>2^16\<close> into the signed range.
\<close>

datatype sample = Finite real | NotANumber | PlusInfinity | MinusInfinity

definition js_trunc :: "real \<Rightarrow> int" where
  "js_trunc x = (if 0 \<le> x then \<lfloor>x\<rfloor> else \<lceil>x\<rceil>)"

definition scale_sample :: "sample \<Rightarrow> sample" where
  "scale_sample v = (case v of Finite x \<Rightarrow> Finite (x * 32768) | _ \<Rightarrow> v)"

definition to_int16 :: "sample \<Rightarrow> 16 word" where
  "to_int16 v = (case v of Finite x \<Rightarrow> word_of_int (js_trunc x) | _ \<Rightarrow> 0)"

text \<open>The loop of \<open>createBlob\<close>: \<open>int16[i] = data[i] * 32768\<close> for every index.\<close>

definition pcm16 :: "sample list \<Rightarrow> 16 word list" where
  "pcm16 frame = map (\<lambda>v. to_int16 (scale_sample v)) frame"

text \<open>\<open>new Uint8Array(int16.buffer)\<close>: the bytes of each element, low byte first.\<close>

definition uint8_view :: "16 word list \<Rightarrow> 8 word list" where
  "uint8_view ws = concat (map (\<lambda>w. [ucast w, ucast (drop_bit 8 w)]) ws)"

text \<open>\<open>encode\<close>: one code unit per byte, then the browser's \<open>btoa\<close> (a parameter).\<close>

definition encode :: "(js_string \<Rightarrow> js_string) \<Rightarrow> 8 word list \<Rightarrow> js_string" where
  "encode btoa bytes = btoa (map ucast bytes)"

record blob =
  data :: js_string
  mimeType :: string

definition createBlob :: "(js_string \<Rightarrow> js_string) \<Rightarrow> sample list \<Rightarrow> blob" where
  "createBlob btoa frame =
     \<lparr>data = encode btoa (uint8_view (pcm16 frame)), mimeType = ''audio/pcm;rate=16000''\<rparr>"

section \<open>App.tsx: component state and handlers\<close>

text \<open>
  The component's state: the three \<open>useState\<close> cells (\<open>formData\<close> holds only the
  narrative) and the three refs of the voice bridge. A media stream is the list of its
  tracks; tracks, audio contexts and sessions are named by numbers.
\<close>

record 'v app_state =
  loading :: bool
  analysis :: "'v option"
  accidentDescription :: js_string
  isListening :: bool
  audioContextRef :: "nat option"
  streamRef :: "nat list option"
  sessionRef :: "nat option"

text \<open>
  A handler's run: the effects it had, the state it left, and whether it ended by an
  exception. \<open>throws\<close> tells which calls on the media objects throw.
\<close>

record 'v run =
  effects :: "effect list"
  state :: "'v app_state"
  thrown :: bool

text \<open>\<open>getTracks().forEach(track => track.stop())\<close>: a throwing call ends the loop.\<close>

fun stop_tracks :: "(effect \<Rightarrow> bool) \<Rightarrow> nat list \<Rightarrow> effect list \<times> bool" where
  "stop_tracks throws [] = ([], False)"
| "stop_tracks throws (t # ts) =
     (if throws (TrackStop t) then ([], True)
      else (case stop_tracks throws ts of (es, ex) \<Rightarrow> (TrackStop t # es, ex)))"

definition stopListening :: "(effect \<Rightarrow> bool) \<Rightarrow> 'v app_state \<Rightarrow> 'v run" where
  "stopListening throws s =
     (let s1 = (if sessionRef s \<noteq> None then s\<lparr>sessionRef := None\<rparr> else s) in
      case (case streamRef s1 of None \<Rightarrow> ([], False) | Some ts \<Rightarrow> stop_tracks throws ts) of
        (es, True) \<Rightarrow> \<lparr>effects = es, state = s1, thrown = True\<rparr>
      | (es, False) \<Rightarrow>
          (let s2 = s1\<lparr>streamRef := None\<rparr> in
           case audioContextRef s2 of
             None \<Rightarrow> \<lparr>effects = es, state = s2\<lparr>isListening := False\<rparr>, thrown = False\<rparr>
           | Some c \<Rightarrow>
               if throws (ContextClose c) then \<lparr>effects = es, state = s2, thrown = True\<rparr>
               else \<lparr>effects = es @ [ContextClose c],
                     state = s2\<lparr>audioContextRef := None, isListening := False\<rparr>,
                     thrown = False\<rparr>))"

text \<open>
  The \<open>onmessage\<close> callback of the live session. The message's \<open>serverContent\<close>, its
  \<open>inputTranscription\<close> and the transcription's \<open>text\<close> (here \<open>transcript\<close>) may each be
  absent.
\<close>

record transcription =
  transcript :: "js_string option"

record server_content =
  inputTranscription :: "transcription option"

record live_server_message =
  serverContent :: "server_content option"

definition onmessage :: "live_server_message \<Rightarrow> 'v app_state \<Rightarrow> 'v app_state" where
  "onmessage message prev =
     (case serverContent message of
        None \<Rightarrow> prev
      | Some content \<Rightarrow>
          (case inputTranscription content of
             None \<Rightarrow> prev
           | Some tr \<Rightarrow>
               prev\<lparr>accidentDescription :=
                 accidentDescription prev
                 @ (if accidentDescription prev \<noteq> [] then js '' '' else js '''')
                 @ to_js_string (transcript tr)\<rparr>))"

text \<open>Messages are handled one at a time, in the order received.\<close>

definition receive :: "live_server_message list \<Rightarrow> 'v app_state \<Rightarrow> 'v app_state" where
  "receive messages s = foldl (\<lambda>st m. onmessage m st) s messages"

text \<open>A message that carries the transcript fragment \<open>t\<close>.\<close>

definition fragment :: "js_string \<Rightarrow> live_server_message" where
  "fragment t =
     \<lparr>serverContent = Some \<lparr>inputTranscription = Some \<lparr>transcript = Some t\<rparr>\<rparr>\<rparr>"

text \<open>
  \<open>handleSubmit\<close>. Its first statement after \<open>preventDefault\<close> is
  \<open>if (isListening) stopListening()\<close>; an exception of that call ends the handler. Then
  the narrative is validated, and only a narrative that is not blank is sent for analysis.
  \<open>setAnalysis(result)\<close> stores the parsed value as it is: a value parsed here is
  \<open>null\<close> (\<open>None\<close>) or not, and a reply that parses to \<open>null\<close> empties the cell.
\<close>

definition stop_if_listening :: "(effect \<Rightarrow> bool) \<Rightarrow> 'v app_state \<Rightarrow> 'v run" where
  "stop_if_listening throws s =
     (if isListening s then stopListening throws s
      else \<lparr>effects = [], state = s, thrown = False\<rparr>)"

definition handleSubmit ::
  "(js_string \<Rightarrow> 'v option option) \<Rightarrow> (js_string \<Rightarrow> api_reply) \<Rightarrow> (effect \<Rightarrow> bool)
     \<Rightarrow> 'v app_state \<Rightarrow> 'v run" where
  "handleSubmit parse generateContent throws s =
     (let r = stop_if_listening throws s in
      if thrown r then r
      else if trim (accidentDescription s) = [] then
        r\<lparr>effects := effects r @ [Alert ''Please provide an accident description.'']\<rparr>
      else
        (let s1 = (state r)\<lparr>loading := True\<rparr> in
         case analyzeTraumaData parse generateContent (accidentDescription s) of
           (es, Inr result) \<Rightarrow>
             \<lparr>effects = effects r @ es,
              state = s1\<lparr>analysis := result, loading := False\<rparr>,
              thrown = False\<rparr>
         | (es, Inl err) \<Rightarrow>
             \<lparr>effects = effects r @ es @ [Alert ''Analysis failed. Please try again.''],
              state = s1\<lparr>loading := False\<rparr>,
              thrown = False\<rparr>))"

section \<open>Rounding of the percentage\<close>

lemma half_subnormal_le: "(1::real) / 2 ^ 1075 \<le> 1 / 2 ^ 53"
  by (intro divide_left_mono power_increasing) simp_all


lemma product_close:
  assumes fm: "binary64_product fmul" and lit: "literal q d" and q: "\<bar>q\<bar> \<le> 2"
  shows "\<bar>fmul d 100 - q * 100\<bar> \<le> 1 / 2 ^ 40"
proof -
  have dq: "\<bar>d - q\<bar> \<le> 2 / 2 ^ 53"
  proof -
    have "\<bar>d - q\<bar> \<le> \<bar>q\<bar> / 2 ^ 53" using lit by (simp add: literal_def)
    also have "\<dots> \<le> 2 / 2 ^ 53" using q by (simp add: divide_right_mono)
    finally show ?thesis .
  qed
  have small: "(2::real) / 2 ^ 53 \<le> 1" by simp
  have d3: "\<bar>d\<bar> \<le> 3" using dq q small by linarith
  have p300: "\<bar>d * 100\<bar> \<le> 300" using d3 by (simp add: abs_mult)
  have big: "(300::real) \<le> 2 ^ 1023"
  proof -
    have "(300::real) \<le> 2 ^ 9" by simp
    also have "\<dots> \<le> 2 ^ 1023" by (rule power_increasing) simp_all
    finally show ?thesis .
  qed
  have "\<bar>fmul d 100 - d * 100\<bar> \<le> \<bar>d * 100\<bar> / 2 ^ 53 + 1 / 2 ^ 1075"
    using fm p300 big by (simp add: binary64_product_def)
  also have "\<dots> \<le> 300 / 2 ^ 53 + 1 / 2 ^ 53"
    using p300 half_subnormal_le by (intro add_mono divide_right_mono) simp_all
  finally have e1: "\<bar>fmul d 100 - d * 100\<bar> \<le> 301 / 2 ^ 53" by simp
  have e2: "\<bar>d * 100 - q * 100\<bar> \<le> 200 / 2 ^ 53"
  proof -
    have "d * 100 - q * 100 = (d - q) * 100" by (simp add: algebra_simps)
    then have "\<bar>d * 100 - q * 100\<bar> = \<bar>d - q\<bar> * 100" by (simp only: abs_mult)
    also have "\<dots> \<le> 2 / 2 ^ 53 * 100" using dq by (intro mult_right_mono) simp_all
    finally show ?thesis by simp
  qed
  have "\<bar>fmul d 100 - q * 100\<bar> \<le> \<bar>fmul d 100 - d * 100\<bar> + \<bar>d * 100 - q * 100\<bar>" by simp
  also have "\<dots> \<le> 301 / 2 ^ 53 + 200 / 2 ^ 53" using e1 e2 by (rule add_mono)
  also have "\<dots> \<le> 1 / 2 ^ 40" by simp
  finally show ?thesis .
qed

lemma percent_literal:
  assumes fm: "binary64_product fmul" and lit: "literal q d" and q: "\<bar>q\<bar> \<le> 2"
    and n: "q * 100 = of_int n"
  shows "percent fmul d = n"
proof -
  have c: "\<bar>fmul d 100 - of_int n\<bar> \<le> 1 / 2 ^ 40"
    using product_close [OF fm lit q] n by simp
  have s: "(1::real) / 2 ^ 40 < 1 / 2" by simp
  have lo: "of_int n \<le> fmul d 100 + 1 / 2" using c s by linarith
  have hi: "fmul d 100 + 1 / 2 < of_int n + 1" using c s by linarith
  show ?thesis unfolding percent_def js_round_def using lo hi by (simp add: floor_eq_iff)
qed

lemma exact_product: "binary64_product (\<lambda>x y. x * y)"
  by (simp add: binary64_product_def)

lemma literal_exact: "literal q q"
  by (simp add: literal_def)

section \<open>Bar colours\<close>

text \<open>
  C5. The colour of a bar is chosen from the integer percentage by strict comparisons:
  above 75 the high colour \<open>#ef4444\<close>, above 40 (and at most 75) the mid colour
  \<open>#f59e0b\<close>, otherwise the low colour \<open>#10b981\<close>; every bar of the chart is filled by
  that rule. The probabilities written 0.80, 0.50 and 0.10 give the high, mid and low
  colour, and the boundary values 0.75 and 0.40 fall into the lower tier (mid and low).
\<close>

theorem bar_color_thresholds:
  assumes "binary64_product fmul"
  shows "getBarColor p =
           (if p > 75 then ''#ef4444'' else if p > 40 then ''#f59e0b'' else ''#10b981'')
       \<and> bar_fills fmul injuries = map (\<lambda>e. getBarColor (prob e)) (chart_data fmul injuries)
       \<and> (literal (80 / 100) d80 \<longrightarrow> getBarColor (percent fmul d80) = ''#ef4444'')
       \<and> (literal (50 / 100) d50 \<longrightarrow> getBarColor (percent fmul d50) = ''#f59e0b'')
       \<and> (literal (10 / 100) d10 \<longrightarrow> getBarColor (percent fmul d10) = ''#10b981'')
       \<and> (literal (75 / 100) d75 \<longrightarrow> getBarColor (percent fmul d75) = ''#f59e0b'')
       \<and> (literal (40 / 100) d40 \<longrightarrow> getBarColor (percent fmul d40) = ''#10b981'')"
proof -
  have general: "getBarColor p =
      (if p > 75 then ''#ef4444'' else if p > 40 then ''#f59e0b'' else ''#10b981'')"
    by (simp add: getBarColor_def)
  have fills: "bar_fills fmul injuries = map (\<lambda>e. getBarColor (prob e)) (chart_data fmul injuries)"
    by (simp add: bar_fills_def)
  have p80: "percent fmul d80 = 80" if "literal (80 / 100) d80"
    using percent_literal [OF assms that, of 80] by simp
  have p50: "percent fmul d50 = 50" if "literal (50 / 100) d50"
    using percent_literal [OF assms that, of 50] by simp
  have p10: "percent fmul d10 = 10" if "literal (10 / 100) d10"
    using percent_literal [OF assms that, of 10] by simp
  have p75: "percent fmul d75 = 75" if "literal (75 / 100) d75"
    using percent_literal [OF assms that, of 75] by simp
  have p40: "percent fmul d40 = 40" if "literal (40 / 100) d40"
    using percent_literal [OF assms that, of 40] by simp
  show ?thesis
    using general fills p80 p50 p10 p75 p40 by (simp add: getBarColor_def)
qed

theorem bar_color_thresholds_witness:
  "binary64_product (\<lambda>x y. x * y)
   \<and> literal (80 / 100) (8 / 10) \<and> getBarColor (percent (\<lambda>x y. x * y) (8 / 10)) = ''#ef4444''
   \<and> literal (50 / 100) (5 / 10) \<and> getBarColor (percent (\<lambda>x y. x * y) (5 / 10)) = ''#f59e0b''
   \<and> literal (10 / 100) (1 / 10) \<and> getBarColor (percent (\<lambda>x y. x * y) (1 / 10)) = ''#10b981''
   \<and> literal (75 / 100) (3 / 4) \<and> getBarColor (percent (\<lambda>x y. x * y) (3 / 4)) = ''#f59e0b''
   \<and> literal (40 / 100) (2 / 5) \<and> getBarColor (percent (\<lambda>x y. x * y) (2 / 5)) = ''#10b981''"
proof -
  have l: "literal (80 / 100) (8 / 10)" "literal (50 / 100) (5 / 10)" "literal (10 / 100) (1 / 10)"
    "literal (75 / 100) (3 / 4)" "literal (40 / 100) (2 / 5)"
    by (simp_all add: literal_def)
  show ?thesis
    using l exact_product
      bar_color_thresholds [OF exact_product, of 0 "[]" "8 / 10" "5 / 10" "1 / 10" "3 / 4" "2 / 5"]
    by blast
qed

section \<open>Chart order\<close>









section \<open>Severity badge\<close>

text \<open>
  C7, as amended. \<open>getSeverityColor\<close> matches the score exactly against \<open>Critical\<close>, \<open>High\<close>
  and \<open>Moderate\<close>, each of which has a treatment of its own (red, orange, yellow). Every
  other string gets the default green treatment: that is the treatment of \<open>Low\<close>, which has
  no case of its own, and equally of every string outside the enum.
\<close>

theorem severity_color_by_match:
  "(getSeverityColor score = ''text-red-600 bg-red-100 border-red-200''
      \<longleftrightarrow> score = js ''Critical'')
   \<and> (getSeverityColor score = ''text-orange-600 bg-orange-100 border-orange-200''
      \<longleftrightarrow> score = js ''High'')
   \<and> (getSeverityColor score = ''text-yellow-600 bg-yellow-100 border-yellow-200''
      \<longleftrightarrow> score = js ''Moderate'')
   \<and> (getSeverityColor score = ''text-green-600 bg-green-100 border-green-200''
      \<longleftrightarrow> score \<notin> {js ''Critical'', js ''High'', js ''Moderate''})
   \<and> getSeverityColor (js ''Low'') = ''text-green-600 bg-green-100 border-green-200''"
  by (simp add: getSeverityColor_def js_def)

text \<open>
  C7 as stated fails: \<open>Low\<close> has no treatment of its own. A string outside the enum is
  shown exactly as \<open>Low\<close> is.
\<close>

theorem severity_low_shares_default:
  "js ''Unknown'' \<noteq> js ''Low''
   \<and> getSeverityColor (js ''Unknown'') = getSeverityColor (js ''Low'')"
  by (simp add: getSeverityColor_def js_def)

section \<open>Audio frames\<close>

lemma sint_int16: "sint (word_of_int k :: 16 word) = (k + 32768) mod 65536 - 32768"
  by (simp add: sint_sbintrunc' signed_take_bit_eq_take_bit_shift take_bit_eq_mod)

text \<open>
  C9. \<open>createBlob\<close> turns every finite sample into a 16-bit integer: the product of the
  sample and 32768, with its fraction cut off (towards zero), reduced modulo \<open>2^16\<close> into
  the signed range. The value wraps around, nothing is clamped: the full-scale sample 1.0
  becomes -32768, not 32767, and 1.5 becomes -16384. A sample that is NaN or an infinity
  becomes 0. The encoded data are the bytes of these integers, and the MIME type is always
  \<open>audio/pcm;rate=16000\<close>.
\<close>

theorem createBlob_wraps_without_clamping:
  "mimeType (createBlob btoa frame) = ''audio/pcm;rate=16000''
   \<and> data (createBlob btoa frame) = encode btoa (uint8_view (pcm16 frame))
   \<and> length (pcm16 frame) = length frame
   \<and> (i < length frame \<and> frame ! i = Finite x
        \<longrightarrow> sint (pcm16 frame ! i) =
              ((if 0 \<le> x then \<lfloor>x * 32768\<rfloor> else \<lceil>x * 32768\<rceil>) + 32768) mod 65536 - 32768)
   \<and> (i < length frame \<and> frame ! i \<in> {NotANumber, PlusInfinity, MinusInfinity}
        \<longrightarrow> pcm16 frame ! i = 0)
   \<and> map sint (pcm16 [Finite 1, Finite (1 / 2), Finite (- 1), Finite (3 / 2), Finite (- 3 / 2),
          Finite (1 / 3), Finite (- 1 / 3), Finite (- 1 / 100000), Finite 0, NotANumber])
       = [- 32768, 16384, - 32768, - 16384, 16384, 10922, - 10922, 0, 0, 0]"
proof -
  have wrap: "sint (pcm16 frame ! i) =
      ((if 0 \<le> x then \<lfloor>x * 32768\<rfloor> else \<lceil>x * 32768\<rceil>) + 32768) mod 65536 - 32768"
    if "i < length frame" "frame ! i = Finite x"
  proof -
    have "pcm16 frame ! i = word_of_int (js_trunc (x * 32768))"
      using that by (simp add: pcm16_def scale_sample_def to_int16_def)
    moreover have "js_trunc (x * 32768) = (if 0 \<le> x then \<lfloor>x * 32768\<rfloor> else \<lceil>x * 32768\<rceil>)"
      by (simp add: js_trunc_def zero_le_mult_iff)
    ultimately show ?thesis by (simp only: sint_int16)
  qed
  have other: "pcm16 frame ! i = 0"
    if "i < length frame" "frame ! i \<in> {NotANumber, PlusInfinity, MinusInfinity}"
    using that by (auto simp: pcm16_def scale_sample_def to_int16_def)
  have examples: "map sint (pcm16 [Finite 1, Finite (1 / 2), Finite (- 1), Finite (3 / 2),
          Finite (- 3 / 2), Finite (1 / 3), Finite (- 1 / 3), Finite (- 1 / 100000), Finite 0,
          NotANumber])
       = [- 32768, 16384, - 32768, - 16384, 16384, 10922, - 10922, 0, 0, 0]"
    by (simp add: pcm16_def scale_sample_def to_int16_def js_trunc_def sint_int16)
  have shape: "mimeType (createBlob btoa frame) = ''audio/pcm;rate=16000''"
    "data (createBlob btoa frame) = encode btoa (uint8_view (pcm16 frame))"
    "length (pcm16 frame) = length frame"
    by (simp_all add: createBlob_def pcm16_def)
  show ?thesis using wrap other examples shape by blast
qed

theorem createBlob_wraps_without_clamping_witness:
  "sint (pcm16 [Finite (1 / 2), Finite 1, NotANumber, Finite (- 1 / 100000)] ! 1) = - 32768
   \<and> sint (pcm16 [Finite (1 / 2), Finite 1, NotANumber, Finite (- 1 / 100000)] ! 0) = 16384
   \<and> sint (pcm16 [Finite (1 / 2), Finite 1, NotANumber, Finite (- 1 / 100000)] ! 3) = 0
   \<and> pcm16 [Finite (1 / 2), Finite 1, NotANumber, Finite (- 1 / 100000)] ! 2 = 0
   \<and> mimeType (createBlob (\<lambda>b. b) [Finite (1 / 2), Finite 1, NotANumber, Finite (- 1 / 100000)])
       = ''audio/pcm;rate=16000''"
proof -
  let ?frame = "[Finite (1 / 2), Finite 1, NotANumber, Finite (- 1 / 100000)]"
  have a: "sint (pcm16 ?frame ! 1) = - 32768"
    using createBlob_wraps_without_clamping [of "\<lambda>b. b" ?frame 1 1] by simp
  have b: "sint (pcm16 ?frame ! 0) = 16384"
    using createBlob_wraps_without_clamping [of "\<lambda>b. b" ?frame 0 "1 / 2"] by simp
  have c: "sint (pcm16 ?frame ! 3) = 0"
    using createBlob_wraps_without_clamping [of "\<lambda>b. b" ?frame 3 "- 1 / 100000"] by simp
  have d: "pcm16 ?frame ! 2 = 0"
    using createBlob_wraps_without_clamping [of "\<lambda>b. b" ?frame 2 0] by simp
  have e: "mimeType (createBlob (\<lambda>b. b) ?frame) = ''audio/pcm;rate=16000''"
    using createBlob_wraps_without_clamping [of "\<lambda>b. b" ?frame 0 0] by blast
  show ?thesis using a b c d e by blast
qed

section \<open>Transcript fragments\<close>

lemma onmessage_fragment:
  "onmessage (fragment t) s =
     s\<lparr>accidentDescription :=
        (if accidentDescription s = [] then t else accidentDescription s @ js '' '' @ t)\<rparr>"
  by (simp add: onmessage_def fragment_def to_js_string_def js_def)

lemma receive_fragments:
  "accidentDescription (receive (map fragment ts) s) =
     foldl (\<lambda>n t. if n = [] then t else n @ js '' '' @ t) (accidentDescription s) ts"
proof (induction ts arbitrary: s)
  case Nil
  show ?case by (simp add: receive_def)
next
  case (Cons t ts)
  have "receive (map fragment (t # ts)) s = receive (map fragment ts) (onmessage (fragment t) s)"
    by (simp add: receive_def)
  then show ?case using Cons [of "onmessage (fragment t) s"] by (simp add: onmessage_fragment)
qed

text \<open>
  C8. A received transcript fragment is appended to the narrative, after a single space
  when the narrative is not empty and with nothing in between when it is; nothing else
  of the state changes, and a sequence of fragments is appended one after the other in
  this way. From an empty narrative, the fragments \<open>patient was\<close> and \<open>hit by a car\<close>
  leave exactly \<open>patient was hit by a car\<close>.
\<close>

theorem transcript_fragments_appended:
  "onmessage (fragment t) s =
     s\<lparr>accidentDescription :=
        (if accidentDescription s = [] then t else accidentDescription s @ js '' '' @ t)\<rparr>
   \<and> accidentDescription (receive (map fragment ts) s) =
       foldl (\<lambda>n t. if n = [] then t else n @ js '' '' @ t) (accidentDescription s) ts
   \<and> accidentDescription
       (receive [fragment (js ''patient was''), fragment (js ''hit by a car'')]
          (s\<lparr>accidentDescription := js ''''\<rparr>))
     = js ''patient was hit by a car''"
proof -
  have "accidentDescription
       (receive (map fragment [js ''patient was'', js ''hit by a car''])
          (s\<lparr>accidentDescription := js ''''\<rparr>))
     = js ''patient was hit by a car''"
    unfolding receive_fragments by (simp add: js_def)
  then show ?thesis
    using onmessage_fragment [of t s] receive_fragments [of ts s] by (simp only: list.map)
qed

section \<open>Analysis client\<close>

text \<open>
  C2. When the request resolves, \<open>analyzeTraumaData\<close> throws its parse error exactly when
  the response text is not parseable JSON, and otherwise returns the parsed value as it
  is. The text that is parsed is the response text, or \<open>{}\<close> in place of an absent or empty
  one.
\<close>

theorem analyze_throws_iff_unparseable:
  assumes "generateContent d = Response t"
  shows "(snd (analyzeTraumaData parse generateContent d) = Inl InvalidAnalysisData
           \<longleftrightarrow> parse (response_json t) = None)
       \<and> (parse (response_json t) = Some v
           \<longrightarrow> snd (analyzeTraumaData parse generateContent d) = Inr v)
       \<and> response_json None = js ''{}''
       \<and> response_json (Some []) = js ''{}''
       \<and> (x \<noteq> [] \<longrightarrow> response_json (Some x) = x)"
  using assms
  by (auto simp: analyzeTraumaData_def response_json_def split: option.splits)

theorem analyze_throws_iff_unparseable_witness:
  "snd (analyzeTraumaData (\<lambda>s. if s = js ''{}'' then Some (0::nat) else None)
          (\<lambda>q. Response None) (js ''crash'')) = Inr 0
   \<and> snd (analyzeTraumaData (\<lambda>s. if s = js ''{}'' then Some (0::nat) else None)
          (\<lambda>q. Response (Some (js ''oops''))) (js ''crash'')) = Inl InvalidAnalysisData
   \<and> response_json (Some (js ''oops'')) = js ''oops''"
proof -
  let ?parse = "\<lambda>s. if s = js ''{}'' then Some (0::nat) else None"
  have ne: "js ''oops'' \<noteq> []" by (simp add: js_def)
  have p: "?parse (response_json None) = Some 0" by (simp add: response_json_def)
  have q: "?parse (response_json (Some (js ''oops''))) = None"
    by (simp add: response_json_def js_def)
  note absent = analyze_throws_iff_unparseable
    [where generateContent = "\<lambda>q. Response None" and d = "js ''crash''" and t = None
       and parse = ?parse and v = 0 and x = "js ''oops''"]
  note malformed = analyze_throws_iff_unparseable
    [where generateContent = "\<lambda>q. Response (Some (js ''oops''))" and d = "js ''crash''"
       and t = "Some (js ''oops'')" and parse = ?parse and v = 0 and x = "js ''oops''"]
  from absent p
  have r1: "snd (analyzeTraumaData ?parse (\<lambda>q. Response None) (js ''crash'')) = Inr 0"
    by blast
  from absent ne
  have r3: "response_json (Some (js ''oops'')) = js ''oops''"
    by blast
  from malformed q
  have r2: "snd (analyzeTraumaData ?parse (\<lambda>q. Response (Some (js ''oops''))) (js ''crash''))
      = Inl InvalidAnalysisData"
    by blast
  show ?thesis using r1 r2 r3 by blast
qed

section \<open>Stopping the voice bridge\<close>

lemma stop_tracks_eq:
  "stop_tracks throws ts =
     (map TrackStop (takeWhile (\<lambda>t. \<not> throws (TrackStop t)) ts),
      \<exists>t\<in>set ts. throws (TrackStop t))"
  by (induction ts) auto

lemma takeWhile_all: "\<forall>t\<in>set ts. P t \<Longrightarrow> takeWhile P ts = ts"
  by (induction ts) auto

lemma stopListening_thrown:
  "thrown (stopListening throws s) \<longleftrightarrow>
     (\<exists>t\<in>set (case streamRef s of None \<Rightarrow> [] | Some ts \<Rightarrow> ts). throws (TrackStop t))
     \<or> (\<exists>c. audioContextRef s = Some c \<and> throws (ContextClose c))"
  by (auto simp: stopListening_def Let_def stop_tracks_eq split: option.splits bool.splits)

lemma stopListening_clean:
  assumes "\<not> thrown (stopListening throws s)"
  shows "effects (stopListening throws s) =
           map TrackStop (case streamRef s of None \<Rightarrow> [] | Some ts \<Rightarrow> ts)
           @ (case audioContextRef s of None \<Rightarrow> [] | Some c \<Rightarrow> [ContextClose c])
       \<and> state (stopListening throws s) =
           s\<lparr>isListening := False, audioContextRef := None, streamRef := None, sessionRef := None\<rparr>"
  using assms
  by (auto simp: stopListening_def Let_def stop_tracks_eq takeWhile_all split: option.splits if_splits bool.splits)

lemma stopListening_track_failure:
  assumes "streamRef s = Some ts" "t \<in> set ts" "throws (TrackStop t)"
  shows "thrown (stopListening throws s)
    \<and> ContextClose c \<notin> set (effects (stopListening throws s))
    \<and> audioContextRef (state (stopListening throws s)) = audioContextRef s
    \<and> streamRef (state (stopListening throws s)) = streamRef s
    \<and> isListening (state (stopListening throws s)) = isListening s"
  using assms by (auto simp: stopListening_def Let_def stop_tracks_eq split: bool.splits dest: set_takeWhileD)

lemma stopListening_effects_media:
  "e \<in> set (effects (stopListening throws s)) \<Longrightarrow> e \<in> range TrackStop \<union> range ContextClose"
  by (auto simp: stopListening_def Let_def stop_tracks_eq split: option.splits if_splits bool.splits dest: set_takeWhileD)

lemma stopListening_idle:
  "sessionRef s = None \<Longrightarrow> streamRef s = None \<Longrightarrow> audioContextRef s = None \<Longrightarrow>
     stopListening throws s = \<lparr>effects = [], state = s\<lparr>isListening := False\<rparr>, thrown = False\<rparr>"
  by (simp add: stopListening_def)

lemma stopListening_again:
  assumes "\<not> thrown (stopListening throws s)"
  shows "stopListening throws (state (stopListening throws s)) =
       \<lparr>effects = [], state = state (stopListening throws s), thrown = False\<rparr>"
proof -
  have st: "state (stopListening throws s) =
      s\<lparr>isListening := False, audioContextRef := None, streamRef := None, sessionRef := None\<rparr>"
    using stopListening_clean [OF assms] by simp
  show ?thesis unfolding st by (subst stopListening_idle) simp_all
qed


text \<open>
  C1, as amended. \<open>stopListening\<close> runs its release steps in sequence and without
  isolating a failure. It ends by an exception exactly when a release call throws. When
  none does, every capture track of the held stream is stopped once, in order, then the
  held audio context is closed once; the three references and the listening flag are
  cleared, so an invocation that follows releases nothing again. The session is never
  closed: only its reference is cleared. When stopping a track throws, the audio context
  is not closed and stays referenced, and the listening flag stays as it was.
\<close>

theorem stopListening_releases_in_sequence:
  "(thrown (stopListening throws s) \<longleftrightarrow>
      (\<exists>t\<in>set (case streamRef s of None \<Rightarrow> [] | Some ts \<Rightarrow> ts). throws (TrackStop t))
      \<or> (\<exists>c. audioContextRef s = Some c \<and> throws (ContextClose c)))
   \<and> (\<not> thrown (stopListening throws s) \<longrightarrow>
        effects (stopListening throws s) =
          map TrackStop (case streamRef s of None \<Rightarrow> [] | Some ts \<Rightarrow> ts)
          @ (case audioContextRef s of None \<Rightarrow> [] | Some c \<Rightarrow> [ContextClose c])
        \<and> state (stopListening throws s) =
          s\<lparr>isListening := False, audioContextRef := None, streamRef := None, sessionRef := None\<rparr>
        \<and> effects (stopListening throws (state (stopListening throws s))) = [])
   \<and> SessionClose k \<notin> set (effects (stopListening throws s))
   \<and> (streamRef s = Some ts \<and> t \<in> set ts \<and> throws (TrackStop t) \<longrightarrow>
        thrown (stopListening throws s)
        \<and> ContextClose c \<notin> set (effects (stopListening throws s))
        \<and> audioContextRef (state (stopListening throws s)) = audioContextRef s
        \<and> isListening (state (stopListening throws s)) = isListening s)"
proof -
  have again: "effects (stopListening throws (state (stopListening throws s))) = []"
    if "\<not> thrown (stopListening throws s)"
    using stopListening_again [OF that] by simp
  have session: "SessionClose k \<notin> set (effects (stopListening throws s))"
    using stopListening_effects_media [of "SessionClose k" throws s] by auto
  show ?thesis
    using stopListening_thrown [of throws s] stopListening_clean [of throws s] again session
      stopListening_track_failure [of s ts t throws c]
    by blast
qed

theorem stopListening_releases_in_sequence_witness:
  "effects (stopListening (\<lambda>e. False)
      \<lparr>loading = False, analysis = None :: nat option, accidentDescription = [],
       isListening = True, audioContextRef = Some 7, streamRef = Some [1, 2],
       sessionRef = Some 3\<rparr>)
     = [TrackStop 1, TrackStop 2, ContextClose 7]
   \<and> state (stopListening (\<lambda>e. False)
      \<lparr>loading = False, analysis = None :: nat option, accidentDescription = [],
       isListening = True, audioContextRef = Some 7, streamRef = Some [1, 2],
       sessionRef = Some 3\<rparr>)
     = \<lparr>loading = False, analysis = None, accidentDescription = [],
        isListening = False, audioContextRef = None, streamRef = None, sessionRef = None\<rparr>
   \<and> thrown (stopListening (\<lambda>e. e = TrackStop 2)
      \<lparr>loading = False, analysis = None :: nat option, accidentDescription = [],
       isListening = True, audioContextRef = Some 7, streamRef = Some [1, 2],
       sessionRef = Some 3\<rparr>)
   \<and> audioContextRef (state (stopListening (\<lambda>e. e = TrackStop 2)
      \<lparr>loading = False, analysis = None :: nat option, accidentDescription = [],
       isListening = True, audioContextRef = Some 7, streamRef = Some [1, 2],
       sessionRef = Some 3\<rparr>)) = Some 7"
proof -
  let ?s = "\<lparr>loading = False, analysis = None :: nat option, accidentDescription = [],
       isListening = True, audioContextRef = Some 7, streamRef = Some [1, 2],
       sessionRef = Some 3\<rparr>"
  note quiet = stopListening_releases_in_sequence [of "\<lambda>e. False" ?s 3 "[1, 2]" 2 7]
  note failing = stopListening_releases_in_sequence [of "\<lambda>e. e = TrackStop 2" ?s 3 "[1, 2]" 2 7]
  have nt: "\<not> thrown (stopListening (\<lambda>e. False) ?s)" using quiet by simp
  have a: "effects (stopListening (\<lambda>e. False) ?s) = [TrackStop 1, TrackStop 2, ContextClose 7]"
    using quiet nt by simp
  have b: "state (stopListening (\<lambda>e. False) ?s)
      = \<lparr>loading = False, analysis = None, accidentDescription = [],
         isListening = False, audioContextRef = None, streamRef = None, sessionRef = None\<rparr>"
    using quiet nt by simp
  have c: "thrown (stopListening (\<lambda>e. e = TrackStop 2) ?s)
      \<and> audioContextRef (state (stopListening (\<lambda>e. e = TrackStop 2) ?s)) = Some 7"
    using failing by simp
  show ?thesis using a b c by blast
qed

text \<open>
  C1 as stated fails. With nothing throwing, the session held is never closed: the
  effects are the track and the context only. With the track's \<open>stop\<close> throwing, the
  audio context is never closed either, and stays referenced.
\<close>

theorem stopListening_leaves_resources:
  "effects (stopListening (\<lambda>e. False)
      \<lparr>loading = False, analysis = None :: nat option, accidentDescription = [],
       isListening = True, audioContextRef = Some 7, streamRef = Some [1],
       sessionRef = Some 3\<rparr>)
     = [TrackStop 1, ContextClose 7]
   \<and> SessionClose 3 \<notin> set (effects (stopListening (\<lambda>e. False)
      \<lparr>loading = False, analysis = None :: nat option, accidentDescription = [],
       isListening = True, audioContextRef = Some 7, streamRef = Some [1],
       sessionRef = Some 3\<rparr>))
   \<and> effects (stopListening (\<lambda>e. e = TrackStop 1)
      \<lparr>loading = False, analysis = None :: nat option, accidentDescription = [],
       isListening = True, audioContextRef = Some 7, streamRef = Some [1],
       sessionRef = Some 3\<rparr>)
     = []
   \<and> audioContextRef (state (stopListening (\<lambda>e. e = TrackStop 1)
      \<lparr>loading = False, analysis = None :: nat option, accidentDescription = [],
       isListening = True, audioContextRef = Some 7, streamRef = Some [1],
       sessionRef = Some 3\<rparr>)) = Some 7"
  by (simp add: stopListening_def)

section \<open>Submitting the form\<close>

lemma trim_blank: "trim s = [] \<longleftrightarrow> (\<forall>c\<in>set s. is_white_space c)"
proof
  assume "trim s = []"
  then have all: "\<forall>c\<in>set (dropWhile is_white_space s). is_white_space c"
    by (simp add: trim_def dropWhile_eq_Nil_conv)
  have "dropWhile is_white_space s = []"
  proof (rule ccontr)
    assume ne: "dropWhile is_white_space s \<noteq> []"
    then have "\<not> is_white_space (hd (dropWhile is_white_space s))" by (rule hd_dropWhile)
    moreover have "hd (dropWhile is_white_space s) \<in> set (dropWhile is_white_space s)"
      using ne by simp
    ultimately show False using all by blast
  qed
  then show "\<forall>c\<in>set s. is_white_space c" by (simp add: dropWhile_eq_Nil_conv)
next
  assume "\<forall>c\<in>set s. is_white_space c"
  then have d: "dropWhile is_white_space s = []" by (simp add: dropWhile_eq_Nil_conv)
  show "trim s = []" unfolding trim_def d by simp
qed

lemma handleSubmit_thrown:
  "thrown (stop_if_listening throws s) \<Longrightarrow> handleSubmit parse gc throws s = stop_if_listening throws s"
  by (simp add: handleSubmit_def stop_if_listening_def Let_def)

lemma handleSubmit_blank:
  "\<not> thrown (stop_if_listening throws s) \<Longrightarrow> trim (accidentDescription s) = [] \<Longrightarrow>
     handleSubmit parse gc throws s =
       \<lparr>effects = effects (stop_if_listening throws s) @ [Alert ''Please provide an accident description.''],
        state = state (stop_if_listening throws s), thrown = False\<rparr>"
  by (simp add: handleSubmit_def stop_if_listening_def Let_def)

lemma handleSubmit_resolved:
  "\<not> thrown (stop_if_listening throws s) \<Longrightarrow> trim (accidentDescription s) \<noteq> [] \<Longrightarrow>
   analyzeTraumaData parse gc (accidentDescription s) = (es, Inr v) \<Longrightarrow>
     handleSubmit parse gc throws s =
       \<lparr>effects = effects (stop_if_listening throws s) @ es,
        state = (state (stop_if_listening throws s))\<lparr>loading := False, analysis := v\<rparr>,
        thrown = False\<rparr>"
  by (simp add: handleSubmit_def stop_if_listening_def Let_def)

lemma handleSubmit_rejected:
  "\<not> thrown (stop_if_listening throws s) \<Longrightarrow> trim (accidentDescription s) \<noteq> [] \<Longrightarrow>
   analyzeTraumaData parse gc (accidentDescription s) = (es, Inl err) \<Longrightarrow>
     handleSubmit parse gc throws s =
       \<lparr>effects = effects (stop_if_listening throws s) @ es @ [Alert ''Analysis failed. Please try again.''],
        state = (state (stop_if_listening throws s))\<lparr>loading := False\<rparr>,
        thrown = False\<rparr>"
  by (simp add: handleSubmit_def stop_if_listening_def Let_def)

lemma stop_if_listening_no_request: "Request q \<notin> set (effects (stop_if_listening throws s))"
  using stopListening_effects_media [of "Request q" throws s] by (auto simp: stop_if_listening_def)

lemma stop_if_listening_analysis:
  "analysis (state (stop_if_listening throws s)) = analysis s
   \<and> loading (state (stop_if_listening throws s)) = loading s
   \<and> accidentDescription (state (stop_if_listening throws s)) = accidentDescription s"
  by (auto simp: stop_if_listening_def stopListening_def Let_def stop_tracks_eq split: option.splits bool.splits)

lemma analyze_effects:
  "fst (analyzeTraumaData parse gc d) =
     Request d # (if snd (analyzeTraumaData parse gc d) = Inl InvalidAnalysisData
                  then [ConsoleError ''Failed to parse Gemini response''] else [])"
  by (simp add: analyzeTraumaData_def split: api_reply.splits option.splits)

text \<open>
  C3. When \<open>handleSubmit\<close> has issued the analysis request and the analysis call rejects
  (a response that is not parseable JSON is one way: the call then rejects with its parse
  error), the handler ends by raising the alert \<open>Analysis failed. Please try again.\<close>,
  the analysis result shown before is still the one held, and the loading flag is clear.
\<close>

theorem submit_failure_keeps_result:
  assumes issued: "Request q \<in> set (effects (handleSubmit parse gc throws s))"
    and rejects: "snd (analyzeTraumaData parse gc (accidentDescription s)) = Inl err"
  shows "last (effects (handleSubmit parse gc throws s)) = Alert ''Analysis failed. Please try again.''
       \<and> analysis (state (handleSubmit parse gc throws s)) = analysis s
       \<and> \<not> loading (state (handleSubmit parse gc throws s))
       \<and> \<not> thrown (handleSubmit parse gc throws s)
       \<and> (gc (accidentDescription s) = Response t \<and> parse (response_json t) = None
            \<longrightarrow> err = InvalidAnalysisData)"
proof -
  obtain es where an: "analyzeTraumaData parse gc (accidentDescription s) = (es, Inl err)"
    using rejects by (cases "analyzeTraumaData parse gc (accidentDescription s)") simp
  have nt: "\<not> thrown (stop_if_listening throws s)"
  proof
    assume "thrown (stop_if_listening throws s)"
    then have "handleSubmit parse gc throws s = stop_if_listening throws s" by (rule handleSubmit_thrown)
    with issued stop_if_listening_no_request show False by metis
  qed
  have nb: "trim (accidentDescription s) \<noteq> []"
  proof
    assume "trim (accidentDescription s) = []"
    from handleSubmit_blank [OF nt this] issued stop_if_listening_no_request [of q throws s]
    show False by simp
  qed
  note r = handleSubmit_rejected [OF nt nb an]
  have malformed: "err = InvalidAnalysisData"
    if "gc (accidentDescription s) = Response t" "parse (response_json t) = None"
    using that rejects by (simp add: analyzeTraumaData_def)
  show ?thesis using r stop_if_listening_analysis [of throws s] malformed by simp
qed


theorem submit_failure_keeps_result_witness:
  "last (effects (handleSubmit (\<lambda>t. None) (\<lambda>q. Response (Some (js ''oops''))) (\<lambda>e. False)
      \<lparr>loading = False, analysis = Some (5::nat), accidentDescription = js ''car crash'',
       isListening = False, audioContextRef = None, streamRef = None, sessionRef = None\<rparr>))
     = Alert ''Analysis failed. Please try again.''
   \<and> analysis (state (handleSubmit (\<lambda>t. None) (\<lambda>q. Response (Some (js ''oops''))) (\<lambda>e. False)
      \<lparr>loading = False, analysis = Some (5::nat), accidentDescription = js ''car crash'',
       isListening = False, audioContextRef = None, streamRef = None, sessionRef = None\<rparr>))
     = Some 5
   \<and> \<not> loading (state (handleSubmit (\<lambda>t. None) (\<lambda>q. Response (Some (js ''oops''))) (\<lambda>e. False)
      \<lparr>loading = False, analysis = Some (5::nat), accidentDescription = js ''car crash'',
       isListening = False, audioContextRef = None, streamRef = None, sessionRef = None\<rparr>))"
proof -
  let ?s = "\<lparr>loading = False, analysis = Some (5::nat), accidentDescription = js ''car crash'',
       isListening = False, audioContextRef = None, streamRef = None, sessionRef = None\<rparr>"
  let ?parse = "\<lambda>t::js_string. None :: nat option option"
  let ?gc = "\<lambda>q::js_string. Response (Some (js ''oops''))"
  have nb: "trim (js ''car crash'') \<noteq> []"
    by (simp add: trim_def js_def is_white_space_def)
  have issued: "Request (js ''car crash'') \<in> set (effects (handleSubmit ?parse ?gc (\<lambda>e. False) ?s))"
    using nb by (simp add: handleSubmit_def stop_if_listening_def analyzeTraumaData_def)
  have rejects: "snd (analyzeTraumaData ?parse ?gc (accidentDescription ?s)) = Inl InvalidAnalysisData"
    by (simp add: analyzeTraumaData_def)
  from submit_failure_keeps_result [OF issued rejects] show ?thesis by simp
qed

text \<open>
  C4. When the narrative consists of white space only (the empty narrative included),
  \<open>handleSubmit\<close> issues no analysis request. Unless the teardown of a listening voice
  bridge threw, its only further effect is the alert \<open>Please provide an accident
  description.\<close>, and the result and the loading flag are as before; when the bridge is
  not listening, that alert is all the handler does.
\<close>

theorem blank_submit_no_request:
  assumes blank: "\<forall>c\<in>set (accidentDescription s). is_white_space c"
  shows "Request q \<notin> set (effects (handleSubmit parse gc throws s))
       \<and> (\<not> thrown (handleSubmit parse gc throws s) \<longrightarrow>
            effects (handleSubmit parse gc throws s) =
              effects (stop_if_listening throws s) @ [Alert ''Please provide an accident description.'']
            \<and> analysis (state (handleSubmit parse gc throws s)) = analysis s
            \<and> loading (state (handleSubmit parse gc throws s)) = loading s)
       \<and> (\<not> isListening s \<longrightarrow>
            handleSubmit parse gc throws s =
              \<lparr>effects = [Alert ''Please provide an accident description.''], state = s,
               thrown = False\<rparr>)"
proof -
  have tr: "trim (accidentDescription s) = []" using blank by (simp add: trim_blank)
  show ?thesis
  proof (cases "thrown (stop_if_listening throws s)")
    case True
    then have h: "handleSubmit parse gc throws s = stop_if_listening throws s" by (rule handleSubmit_thrown)
    have "isListening s" using True by (auto simp: stop_if_listening_def split: if_splits)
    then show ?thesis using True h stop_if_listening_no_request [of q throws s] by simp
  next
    case False
    note h = handleSubmit_blank [OF False tr, of parse gc]
    have idle: "stop_if_listening throws s = \<lparr>effects = [], state = s, thrown = False\<rparr>" if "\<not> isListening s"
      using that by (simp add: stop_if_listening_def)
    show ?thesis
      using h stop_if_listening_no_request [of q throws s] stop_if_listening_analysis [of throws s] idle by auto
  qed
qed

theorem blank_submit_no_request_witness:
  "handleSubmit (\<lambda>t. None :: nat option option) (\<lambda>q. Rejected) (\<lambda>e. False)
      \<lparr>loading = False, analysis = None, accidentDescription = [0x20, 0x9, 0xA0, 0xA],
       isListening = False, audioContextRef = None, streamRef = None, sessionRef = None\<rparr>
     = \<lparr>effects = [Alert ''Please provide an accident description.''],
        state = \<lparr>loading = False, analysis = None, accidentDescription = [0x20, 0x9, 0xA0, 0xA],
          isListening = False, audioContextRef = None, streamRef = None, sessionRef = None\<rparr>,
        thrown = False\<rparr>
   \<and> Request [0x20, 0x9, 0xA0, 0xA] \<notin> set (effects (handleSubmit (\<lambda>t. None :: nat option option)
      (\<lambda>q. Rejected) (\<lambda>e. False)
      \<lparr>loading = False, analysis = None, accidentDescription = [0x20, 0x9, 0xA0, 0xA],
       isListening = False, audioContextRef = None, streamRef = None, sessionRef = None\<rparr>))
   \<and> effects (handleSubmit (\<lambda>t. None :: nat option option) (\<lambda>q. Rejected) (\<lambda>e. False)
      \<lparr>loading = False, analysis = None, accidentDescription = [],
       isListening = False, audioContextRef = None, streamRef = None, sessionRef = None\<rparr>)
     = [Alert ''Please provide an accident description.'']"
proof -
  let ?blank = "\<lparr>loading = False, analysis = None :: nat option,
       accidentDescription = [0x20, 0x9, 0xA0, 0xA],
       isListening = False, audioContextRef = None, streamRef = None, sessionRef = None\<rparr>"
  let ?empty = "\<lparr>loading = False, analysis = None :: nat option, accidentDescription = [],
       isListening = False, audioContextRef = None, streamRef = None, sessionRef = None\<rparr>"
  have b: "\<forall>c\<in>set (accidentDescription ?blank). is_white_space c"
    by (simp add: is_white_space_def)
  have e: "\<forall>c\<in>set (accidentDescription ?empty). is_white_space c"
    by simp
  note t1 = blank_submit_no_request [OF b, of "[0x20, 0x9, 0xA0, 0xA]" "\<lambda>t. None" "\<lambda>q. Rejected" "\<lambda>e. False"]
  note t2 = blank_submit_no_request [OF e, of "[]" "\<lambda>t. None" "\<lambda>q. Rejected" "\<lambda>e. False"]
  have r1: "handleSubmit (\<lambda>t. None) (\<lambda>q. Rejected) (\<lambda>e. False) ?blank
      = \<lparr>effects = [Alert ''Please provide an accident description.''], state = ?blank,
         thrown = False\<rparr>"
    using t1 by simp
  have r2: "Request [0x20, 0x9, 0xA0, 0xA]
      \<notin> set (effects (handleSubmit (\<lambda>t. None) (\<lambda>q. Rejected) (\<lambda>e. False) ?blank))"
    using t1 by blast
  have r3: "effects (handleSubmit (\<lambda>t. None) (\<lambda>q. Rejected) (\<lambda>e. False) ?empty)
      = [Alert ''Please provide an accident description.'']"
    using t2 by simp
  show ?thesis using r1 r2 r3 by blast
qed

text \<open>
  C10, as amended. When the form is submitted while the voice bridge is listening (and
  the teardown does not throw), \<open>handleSubmit\<close> first does what \<open>stopListening\<close> does: its
  effects begin with the stopping of the tracks and the closing of the audio context,
  everything after them is no media call, and in the state it leaves the listening flag
  and the three references are cleared. This holds whatever the narrative is: for a
  narrative of white space only, the effects are the teardown followed by the validation
  alert. The live session is not closed by the handler: only its reference is cleared.
\<close>

theorem submit_stops_listening_first:
  assumes listening: "isListening s" and ok: "\<not> thrown (stopListening throws s)"
  shows "\<not> thrown (handleSubmit parse gc throws s)
       \<and> effects (stopListening throws s) =
           map TrackStop (case streamRef s of None \<Rightarrow> [] | Some ts \<Rightarrow> ts)
           @ (case audioContextRef s of None \<Rightarrow> [] | Some c \<Rightarrow> [ContextClose c])
       \<and> (\<exists>rest. effects (handleSubmit parse gc throws s) = effects (stopListening throws s) @ rest
            \<and> set rest \<inter> (range TrackStop \<union> range ContextClose) = {})
       \<and> \<not> isListening (state (handleSubmit parse gc throws s))
       \<and> sessionRef (state (handleSubmit parse gc throws s)) = None
       \<and> streamRef (state (handleSubmit parse gc throws s)) = None
       \<and> audioContextRef (state (handleSubmit parse gc throws s)) = None
       \<and> SessionClose k \<notin> set (effects (handleSubmit parse gc throws s))
       \<and> ((\<forall>c\<in>set (accidentDescription s). is_white_space c) \<longrightarrow>
            effects (handleSubmit parse gc throws s) =
              effects (stopListening throws s) @ [Alert ''Please provide an accident description.''])"
proof -
  have td: "stop_if_listening throws s = stopListening throws s" using listening by (simp add: stop_if_listening_def)
  have nt: "\<not> thrown (stop_if_listening throws s)" using ok td by simp
  note clean = stopListening_clean [OF ok]
  show ?thesis
  proof (cases "trim (accidentDescription s) = []")
    case True
    note h = handleSubmit_blank [OF nt True, of parse gc]
    show ?thesis using h clean td True by (auto simp: trim_blank)
  next
    case False
    then have nb: "\<not> (\<forall>c\<in>set (accidentDescription s). is_white_space c)" by (simp add: trim_blank)
    obtain es res where an: "analyzeTraumaData parse gc (accidentDescription s) = (es, res)"
      by (cases "analyzeTraumaData parse gc (accidentDescription s)") simp
    have es: "set es \<subseteq> range Request \<union> range ConsoleError"
      using analyze_effects [of parse gc "accidentDescription s"] an by (auto split: if_splits)
    show ?thesis
    proof (cases res)
      case (Inl err)
      note h = handleSubmit_rejected [OF nt False an [unfolded Inl]]
      show ?thesis using h clean td nb es by auto
    next
      case (Inr v)
      note h = handleSubmit_resolved [OF nt False an [unfolded Inr]]
      show ?thesis using h clean td nb es by auto
    qed
  qed
qed

theorem submit_stops_listening_first_witness:
  "effects (handleSubmit (\<lambda>t. None :: nat option option) (\<lambda>q. Rejected) (\<lambda>e. False)
      \<lparr>loading = False, analysis = None, accidentDescription = [0x20, 0x20],
       isListening = True, audioContextRef = Some 7, streamRef = Some [1],
       sessionRef = Some 3\<rparr>)
     = [TrackStop 1, ContextClose 7, Alert ''Please provide an accident description.'']
   \<and> \<not> isListening (state (handleSubmit (\<lambda>t. None :: nat option option) (\<lambda>q. Rejected) (\<lambda>e. False)
      \<lparr>loading = False, analysis = None, accidentDescription = [0x20, 0x20],
       isListening = True, audioContextRef = Some 7, streamRef = Some [1],
       sessionRef = Some 3\<rparr>))
   \<and> streamRef (state (handleSubmit (\<lambda>t. None :: nat option option) (\<lambda>q. Rejected) (\<lambda>e. False)
      \<lparr>loading = False, analysis = None, accidentDescription = [0x20, 0x20],
       isListening = True, audioContextRef = Some 7, streamRef = Some [1],
       sessionRef = Some 3\<rparr>)) = None"
proof -
  let ?s = "\<lparr>loading = False, analysis = None :: nat option, accidentDescription = [0x20, 0x20],
       isListening = True, audioContextRef = Some 7, streamRef = Some [1],
       sessionRef = Some 3\<rparr>"
  have l: "isListening ?s" by simp
  have ok: "\<not> thrown (stopListening (\<lambda>e. False) ?s)" by (simp add: stopListening_def)
  have b: "\<forall>c\<in>set (accidentDescription ?s). is_white_space c" by (simp add: is_white_space_def)
  note t = submit_stops_listening_first [OF l ok, of "\<lambda>t. None" "\<lambda>q. Rejected"]
  have td: "effects (stopListening (\<lambda>e. False) ?s) = [TrackStop 1, ContextClose 7]"
    using t by simp
  have r1: "effects (handleSubmit (\<lambda>t. None) (\<lambda>q. Rejected) (\<lambda>e. False) ?s)
      = [TrackStop 1, ContextClose 7, Alert ''Please provide an accident description.'']"
    using t b td by simp
  have r2: "\<not> isListening (state (handleSubmit (\<lambda>t. None) (\<lambda>q. Rejected) (\<lambda>e. False) ?s))"
    using t by blast
  have r3: "streamRef (state (handleSubmit (\<lambda>t. None) (\<lambda>q. Rejected) (\<lambda>e. False) ?s)) = None"
    using t by blast
  show ?thesis using r1 r2 r3 by blast
qed

text \<open>
  C10 as stated fails: the submission ends the listening state and releases the tracks and
  the audio context, but the voice session itself is not stopped. The session held is never
  closed, also when the narrative is blank.
\<close>

theorem submit_leaves_session_open:
  "effects (handleSubmit (\<lambda>t. None :: nat option option) (\<lambda>q. Rejected) (\<lambda>e. False)
      \<lparr>loading = False, analysis = None, accidentDescription = [0x20],
       isListening = True, audioContextRef = Some 7, streamRef = Some [1],
       sessionRef = Some 3\<rparr>)
     = [TrackStop 1, ContextClose 7, Alert ''Please provide an accident description.'']
   \<and> SessionClose 3 \<notin> set (effects (handleSubmit (\<lambda>t. None :: nat option option)
      (\<lambda>q. Rejected) (\<lambda>e. False)
      \<lparr>loading = False, analysis = None, accidentDescription = [0x20],
       isListening = True, audioContextRef = Some 7, streamRef = Some [1],
       sessionRef = Some 3\<rparr>))"
  by (simp add: handleSubmit_def stop_if_listening_def stopListening_def trim_def
      is_white_space_def)

end
